theory Spec2Isabelle
  imports Main "HOL-Library.Multiset"
begin

section \<open>Data model\<close>

text \<open>
  The service stores two collections, users and todos, behind a Prisma client
  (\<^verbatim>\<open>app/database/prisma.py\<close>). The fields of the two documents are the ones the
  response schemas read (\<^verbatim>\<open>UserResponse\<close> in \<^verbatim>\<open>app/schemas/user.py\<close>,
  \<^verbatim>\<open>TodoResponse\<close> in \<^verbatim>\<open>app/schemas/todo.py\<close>) plus the stored password
  hash that \<^verbatim>\<open>login\<close> reads. A \<^verbatim>\<open>datetime\<close> is a point on a linear time
  axis, here an integer timestamp. Strings are byte lists; the only operations that look
  inside a string (\<^verbatim>\<open>split\<close>, \<^verbatim>\<open>lower\<close>) act on header and configuration
  text, which is Latin-1.

  Field names carry a prefix per record (\<open>u_\<close>, \<open>tc_\<close>, \<open>tu_\<close>, ...), since
  several schemas of the source use the same field names and \<open>id\<close> is a constant of HOL.
\<close>

type_synonym datetime = int

record User =
  u_id :: string
  u_email :: string
  u_password :: string
  u_createdAt :: datetime

record Todo =
  t_id :: string
  title :: string
  completed :: bool
  dueDate :: "datetime option"
  pinned :: bool
  userId :: string
  createdAt :: datetime

record db =
  users :: "User list"
  todos :: "Todo list"

subsection \<open>Request and response schemas\<close>


record UserLogin =
  ul_email :: string
  ul_password :: string


record TokenResponse =
  tr_access_token :: string
  tr_refresh_token :: string
  tr_token_type :: string

record TodoCreate =
  tc_title :: string
  tc_completed :: bool
  tc_dueDate :: "datetime option"
  tc_pinned :: bool

record TodoUpdate =
  tu_title :: "string option"
  tu_completed :: "bool option"
  tu_dueDate :: "datetime option"
  tu_pinned :: "bool option"

subsection \<open>Errors, requests, cookies, settings\<close>

text \<open>
  Every \<^verbatim>\<open>raise HTTPException(status_code, detail, headers)\<close> of the source is a value
  \<open>HTTPException status detail headers\<close>; the empty header list stands for
  \<^verbatim>\<open>headers=None\<close>. \<open>UniqueViolationError\<close> is what the Prisma client raises when a
  create breaks a unique index; no handler catches it. \<open>RequestValidationError\<close> is the
  framework's answer (status 422) to a body that its schema does not accept, given before
  the handler runs.
\<close>

datatype error =
  HTTPException (status_code: nat) (detail: string) (exc_headers: "(string \<times> string) list")
| UniqueViolationError
| RequestValidationError

record Request =
  cookies :: "(string \<times> string) list"
  headers :: "(string \<times> string) list"

record SetCookie =
  key :: string
  cookie_value :: string
  httponly :: bool
  secure :: bool
  samesite :: string
  max_age :: int
  path :: string

record Settings =
  ACCESS_TOKEN_EXPIRE_MINUTES :: int
  REFRESH_TOKEN_EXPIRE_DAYS :: int
  COOKIE_SECURE :: bool
  COOKIE_SAMESITE :: string

section \<open>Python string operations used by the source\<close>

text \<open>
  \<^verbatim>\<open>str.split()\<close> with no argument cuts a string at runs of whitespace and never
  returns an empty piece. \<open>py_isspace\<close> lists the whitespace code points below 256.
  \<^verbatim>\<open>str.lower()\<close> maps the upper-case letters of Latin-1 to their lower-case forms.
\<close>

definition py_isspace :: "char \<Rightarrow> bool" where
  "py_isspace c =
     (let n = (of_char c :: nat)
      in (9 \<le> n \<and> n \<le> 13) \<or> (28 \<le> n \<and> n \<le> 32) \<or> n = 133 \<or> n = 160)"

fun py_split_from :: "string \<Rightarrow> string \<Rightarrow> string list" where
  "py_split_from w [] = (if w = [] then [] else [w])"
| "py_split_from w (c # cs) =
     (if py_isspace c
      then (if w = [] then py_split_from [] cs else w # py_split_from [] cs)
      else py_split_from (w @ [c]) cs)"

definition py_split :: "string \<Rightarrow> string list" where
  "py_split s = py_split_from [] s"

definition py_lower_char :: "char \<Rightarrow> char" where
  "py_lower_char c =
     (let n = (of_char c :: nat)
      in if (65 \<le> n \<and> n \<le> 90) \<or> (192 \<le> n \<and> n \<le> 222 \<and> n \<noteq> 215)
         then char_of (n + 32) else c)"

definition py_lower :: "string \<Rightarrow> string" where
  "py_lower s = map py_lower_char s"

text \<open>
  \<^verbatim>\<open>sorted(xs, key=k, reverse=True)\<close>: CPython reverses the list, sorts it stably
  in ascending key order and reverses the result, so equal keys keep their input order.
\<close>

definition py_sorted :: "('a \<Rightarrow> 'k::linorder) \<Rightarrow> bool \<Rightarrow> 'a list \<Rightarrow> 'a list" where
  "py_sorted k reverse xs = (if reverse then rev (sort_key k (rev xs)) else sort_key k xs)"

text \<open>\<^verbatim>\<open>dict.get(k)\<close> on a dictionary kept as an association list.\<close>

definition dict_get :: "('k \<times> 'v) list \<Rightarrow> 'k \<Rightarrow> 'v option" where
  "dict_get d k = map_of d k"

text \<open>
  \<^verbatim>\<open>request.headers.get(name)\<close>: header names reach the application in lower case
  and are looked up without regard to case.
\<close>

definition headers_get :: "(string \<times> string) list \<Rightarrow> string \<Rightarrow> string option" where
  "headers_get hs name = map_of hs (py_lower name)"

text \<open>\<^verbatim>\<open>not token\<close> for an optional string: true for \<^verbatim>\<open>None\<close> and for the empty string.\<close>

definition py_not :: "string option \<Rightarrow> bool" where
  "py_not t = (case t of None \<Rightarrow> True | Some v \<Rightarrow> v = [])"

section \<open>Collaborators\<close>

subsection \<open>Environment\<close>

text \<open>
  What a handler reads from outside the repository: the password hasher of
  \<^verbatim>\<open>app/utils/password.py\<close>, the signing and decoding of the JWT library behind
  \<^verbatim>\<open>app/utils/jwt_handler.py\<close> (\<open>jwt_decode\<close> returns \<open>None\<close> for a bad signature
  or a malformed token), the clock, and the identifier the database gives the next
  document it creates. Two more parts are not fixed by the repository's files:
  \<open>email_accepts\<close> is the syntax check of the email validator behind \<^verbatim>\<open>EmailStr\<close>
  (which addresses it lets through), and \<open>email_unique_key\<close> is the key under which the
  store's unique index on the email compares two addresses (the identity for a binary
  index, lower-casing for a case-insensitive collation).
\<close>

record Payload =
  p_sub :: "string option"
  p_type :: string
  p_exp :: int

record env =
  hash_password :: "string \<Rightarrow> string"
  verify_password :: "string \<Rightarrow> string \<Rightarrow> bool"
  jwt_encode :: "Payload \<Rightarrow> string"
  jwt_decode :: "string \<Rightarrow> Payload option"
  now :: datetime
  fresh_id :: string
  email_accepts :: "string \<Rightarrow> bool"
  email_unique_key :: "string \<Rightarrow> string"

subsection \<open>Validated email addresses\<close>

text \<open>
  \<^verbatim>\<open>UserCreate.email\<close> and \<^verbatim>\<open>UserLogin.email\<close> are typed \<^verbatim>\<open>EmailStr\<close>
  (\<^verbatim>\<open>app/schemas/user.py\<close>): the handler never sees the address as sent, but the
  validator's normalised form of it, which keeps the local part as written and puts the
  domain, the part after the last \<^verbatim>\<open>@\<close>, in lower case. The model covers addresses
  written in ASCII with an unquoted local part.
\<close>

definition email_domain :: "string \<Rightarrow> string" where
  "email_domain raw = rev (takeWhile (\<lambda>c. c \<noteq> CHR ''@'') (rev raw))"

definition email_local :: "string \<Rightarrow> string" where
  "email_local raw = take (length raw - length (email_domain raw) - 1) raw"

definition EmailStr_normalize :: "string \<Rightarrow> string" where
  "EmailStr_normalize raw =
     (if CHR ''@'' \<in> set raw
      then email_local raw @ ''@'' @ py_lower (email_domain raw)
      else raw)"

subsection \<open>Token codec\<close>

text \<open>
  Modelled from the spec: \<^verbatim>\<open>app/utils/jwt_handler.py\<close> (\<^verbatim>\<open>create_access_token\<close>,
  \<^verbatim>\<open>create_refresh_token\<close>, \<^verbatim>\<open>verify_token\<close>) is not among the source files.
  Section 4.2 of the specification: \<^emph>\<open>issue\<close> encodes subject, type and expiry
  (\<open>now + ttl\<close>) into a signed token; \<^emph>\<open>verify\<close> decodes and checks
  (a) signature validity, (b) not expired, (c) the payload's type field equals the expected
  type, and any failure yields the same invalid result (\<open>None\<close>).
\<close>

definition create_access_token :: "env \<Rightarrow> Settings \<Rightarrow> string \<Rightarrow> string" where
  "create_access_token e st subject =
     jwt_encode e \<lparr>p_sub = Some subject, p_type = ''access'',
                   p_exp = now e + ACCESS_TOKEN_EXPIRE_MINUTES st * 60\<rparr>"

definition create_refresh_token :: "env \<Rightarrow> Settings \<Rightarrow> string \<Rightarrow> string" where
  "create_refresh_token e st subject =
     jwt_encode e \<lparr>p_sub = Some subject, p_type = ''refresh'',
                   p_exp = now e + REFRESH_TOKEN_EXPIRE_DAYS st * 24 * 60 * 60\<rparr>"

definition verify_token :: "env \<Rightarrow> string \<Rightarrow> string \<Rightarrow> Payload option" where
  "verify_token e token token_type =
     (case jwt_decode e token of
        None \<Rightarrow> None
      | Some payload \<Rightarrow>
          if p_exp payload < now e then None
          else if p_type payload = token_type then Some payload
          else None)"

subsection \<open>Persistence\<close>

text \<open>
  Modelled from the spec: the Prisma schema and client are not among the source files.
  Section 6 of the specification gives the contract: find a user by email or by id, create
  a user (a conflict if the email already exists), find a todo by id, find the todos of a
  user id (in stored order), create, update with partial fields, delete. A collection is
  the list of its documents in insertion order; \<^verbatim>\<open>find_unique\<close> is the first
  document that matches, by equality of the stored strings. Section 3 calls the email
  unique and case-insensitive-comparable and does not say how the unique index compares,
  so \<open>user_create\<close> reports a conflict when a stored email has the same
  \<open>email_unique_key\<close> as the new one.
\<close>

definition user_find_unique_email :: "db \<Rightarrow> string \<Rightarrow> User option" where
  "user_find_unique_email d e = find (\<lambda>u. u_email u = e) (users d)"

definition user_find_unique_id :: "db \<Rightarrow> string \<Rightarrow> User option" where
  "user_find_unique_id d i = find (\<lambda>u. u_id u = i) (users d)"


definition todo_find_unique :: "db \<Rightarrow> string \<Rightarrow> Todo option" where
  "todo_find_unique d i = find (\<lambda>t. t_id t = i) (todos d)"

definition todo_find_many :: "db \<Rightarrow> string \<Rightarrow> Todo list" where
  "todo_find_many d uid = filter (\<lambda>t. userId t = uid) (todos d)"

definition todo_create :: "env \<Rightarrow> db \<Rightarrow> string \<Rightarrow> bool \<Rightarrow> datetime option \<Rightarrow> bool \<Rightarrow> string \<Rightarrow> Todo \<times> db" where
  "todo_create e d ti co du pi uid =
     (let t = \<lparr>t_id = fresh_id e, title = ti, completed = co, dueDate = du, pinned = pi,
                userId = uid, createdAt = now e\<rparr>
      in (t, d\<lparr>todos := todos d @ [t]\<rparr>))"

text \<open>
  The \<^verbatim>\<open>data\<close> dictionary of an update holds a key only for a field to overwrite:
  \<open>None\<close> is an absent key.
\<close>

record update_data =
  ud_title :: "string option"
  ud_completed :: "bool option"
  ud_dueDate :: "datetime option"
  ud_pinned :: "bool option"

definition apply_update :: "update_data \<Rightarrow> Todo \<Rightarrow> Todo" where
  "apply_update u t =
     t\<lparr>title := (case ud_title u of None \<Rightarrow> title t | Some v \<Rightarrow> v),
       completed := (case ud_completed u of None \<Rightarrow> completed t | Some v \<Rightarrow> v),
       dueDate := (case ud_dueDate u of None \<Rightarrow> dueDate t | Some v \<Rightarrow> Some v),
       pinned := (case ud_pinned u of None \<Rightarrow> pinned t | Some v \<Rightarrow> v)\<rparr>"

definition todo_update :: "db \<Rightarrow> string \<Rightarrow> update_data \<Rightarrow> Todo option \<times> db" where
  "todo_update d i u =
     (case todo_find_unique d i of
        None \<Rightarrow> (None, d)
      | Some t \<Rightarrow>
          (Some (apply_update u t),
           d\<lparr>todos := map (\<lambda>x. if t_id x = i then apply_update u x else x) (todos d)\<rparr>))"

definition todo_delete :: "db \<Rightarrow> string \<Rightarrow> Todo option \<times> db" where
  "todo_delete d i =
     (todo_find_unique d i, d\<lparr>todos := filter (\<lambda>x. t_id x \<noteq> i) (todos d)\<rparr>)"

section \<open>Authentication routes (\<^verbatim>\<open>app/routes/auth.py\<close>)\<close>




definition access_cookie :: "Settings \<Rightarrow> string \<Rightarrow> SetCookie" where
  "access_cookie st v =
     \<lparr>key = ''access_token'', cookie_value = v, httponly = True,
      secure = COOKIE_SECURE st, samesite = py_lower (COOKIE_SAMESITE st),
      max_age = ACCESS_TOKEN_EXPIRE_MINUTES st * 60, path = ''/''\<rparr>"

definition refresh_cookie :: "Settings \<Rightarrow> string \<Rightarrow> SetCookie" where
  "refresh_cookie st v =
     \<lparr>key = ''refresh_token'', cookie_value = v, httponly = True,
      secure = COOKIE_SECURE st, samesite = py_lower (COOKIE_SAMESITE st),
      max_age = REFRESH_TOKEN_EXPIRE_DAYS st * 24 * 60 * 60, path = ''/''\<rparr>"

definition login :: "env \<Rightarrow> Settings \<Rightarrow> db \<Rightarrow> UserLogin \<Rightarrow> error + (SetCookie list \<times> TokenResponse)" where
  "login e st d user_data =
     (case user_find_unique_email d (ul_email user_data) of
        None \<Rightarrow> Inl (HTTPException 401 ''Incorrect email or password'' [])
      | Some user \<Rightarrow>
          if \<not> verify_password e (ul_password user_data) (u_password user)
          then Inl (HTTPException 401 ''Incorrect email or password'' [])
          else
            (let at = create_access_token e st (u_id user);
                 rt = create_refresh_token e st (u_id user)
             in Inr ([access_cookie st at, refresh_cookie st rt],
                     \<lparr>tr_access_token = at, tr_refresh_token = rt,
                      tr_token_type = ''bearer''\<rparr>)))"

definition refresh_token :: "env \<Rightarrow> Settings \<Rightarrow> db \<Rightarrow> Request \<Rightarrow> error + (SetCookie list \<times> TokenResponse)" where
  "refresh_token e st d request =
     (case dict_get (cookies request) ''refresh_token'' of
        None \<Rightarrow> Inl (HTTPException 401 ''Refresh token not provided'' [])
      | Some rt \<Rightarrow>
          (case verify_token e rt ''refresh'' of
             None \<Rightarrow> Inl (HTTPException 401 ''Invalid or expired refresh token'' [])
           | Some payload \<Rightarrow>
               (case p_sub payload of
                  None \<Rightarrow> Inl (HTTPException 401 ''Invalid token payload'' [])
                | Some user_id \<Rightarrow>
                    (case user_find_unique_id d user_id of
                       None \<Rightarrow> Inl (HTTPException 401 ''User not found'' [])
                     | Some user \<Rightarrow>
                         (let new_access_token = create_access_token e st (u_id user)
                          in Inr ([access_cookie st new_access_token],
                                  \<lparr>tr_access_token = new_access_token,
                                   tr_refresh_token = rt,
                                   tr_token_type = ''bearer''\<rparr>))))))"

section \<open>Authentication gate (\<^verbatim>\<open>app/core/dependencies.py\<close>)\<close>

definition www_authenticate :: "(string \<times> string) list" where
  "www_authenticate = [(''WWW-Authenticate'', ''Bearer'')]"

text \<open>
  The tuple assignment \<^verbatim>\<open>scheme, token = authorization.split()\<close> raises
  \<^verbatim>\<open>ValueError\<close> unless the split has exactly two pieces; the handler of that
  exception does not catch the \<^verbatim>\<open>HTTPException\<close> raised for a wrong scheme.
\<close>

definition get_token_from_cookie_or_header :: "Request \<Rightarrow> error + string" where
  "get_token_from_cookie_or_header request =
     (let token = dict_get (cookies request) ''access_token'';
          from_header =
            (if py_not token then
               (let authorization = headers_get (headers request) ''Authorization''
                in case authorization of
                     None \<Rightarrow> Inr token
                   | Some a \<Rightarrow>
                       if a = [] then Inr token
                       else (case py_split a of
                               [scheme, tok] \<Rightarrow>
                                 if py_lower scheme \<noteq> ''bearer''
                                 then Inl (HTTPException 401 ''Invalid authentication scheme''
                                             www_authenticate)
                                 else Inr (Some tok)
                             | _ \<Rightarrow> Inl (HTTPException 401 ''Invalid authorization header''
                                           www_authenticate)))
             else Inr token)
      in case from_header of
           Inl err \<Rightarrow> Inl err
         | Inr token' \<Rightarrow>
             (case token' of
                None \<Rightarrow> Inl (HTTPException 401 ''Could not validate credentials''
                               www_authenticate)
              | Some t \<Rightarrow>
                  if t = []
                  then Inl (HTTPException 401 ''Could not validate credentials''
                              www_authenticate)
                  else Inr t))"

definition get_current_user_id :: "env \<Rightarrow> db \<Rightarrow> string \<Rightarrow> error + string" where
  "get_current_user_id e d token =
     (let credentials_exception =
            HTTPException 401 ''Could not validate credentials'' www_authenticate
      in case verify_token e token ''access'' of
           None \<Rightarrow> Inl credentials_exception
         | Some payload \<Rightarrow>
             (case p_sub payload of
                None \<Rightarrow> Inl credentials_exception
              | Some user_id \<Rightarrow>
                  (case user_find_unique_id d user_id of
                     None \<Rightarrow> Inl credentials_exception
                   | Some user \<Rightarrow> Inr user_id)))"

text \<open>
  \<^verbatim>\<open>Depends(get_current_user_id)\<close>: the framework first resolves the token from the
  request and passes it on; an exception of either step ends the request.
\<close>

definition depends_current_user_id :: "env \<Rightarrow> db \<Rightarrow> Request \<Rightarrow> error + string" where
  "depends_current_user_id e d request =
     (case get_token_from_cookie_or_header request of
        Inl err \<Rightarrow> Inl err
      | Inr token \<Rightarrow> get_current_user_id e d token)"

section \<open>Todo routes (\<^verbatim>\<open>app/routes/todos.py\<close>)\<close>

text \<open>
  Each handler receives \<open>user_id\<close> from \<open>depends_current_user_id\<close>.
\<close>

definition get_todos :: "db \<Rightarrow> string \<Rightarrow> Todo list" where
  "get_todos d user_id = py_sorted createdAt True (todo_find_many d user_id)"

definition create_todo :: "env \<Rightarrow> db \<Rightarrow> TodoCreate \<Rightarrow> string \<Rightarrow> Todo \<times> db" where
  "create_todo e d todo_data user_id =
     todo_create e d (tc_title todo_data) (tc_completed todo_data) (tc_dueDate todo_data)
       (tc_pinned todo_data) user_id"

definition prepare_update_data :: "TodoUpdate \<Rightarrow> update_data" where
  "prepare_update_data todo_data =
     (let u0 = \<lparr>ud_title = None, ud_completed = None, ud_dueDate = None, ud_pinned = None\<rparr>;
          u1 = (if tu_title todo_data \<noteq> None then u0\<lparr>ud_title := tu_title todo_data\<rparr> else u0);
          u2 = (if tu_completed todo_data \<noteq> None
                then u1\<lparr>ud_completed := tu_completed todo_data\<rparr> else u1);
          u3 = (if tu_dueDate todo_data \<noteq> None
                then u2\<lparr>ud_dueDate := tu_dueDate todo_data\<rparr> else u2);
          u4 = (if tu_pinned todo_data \<noteq> None
                then u3\<lparr>ud_pinned := tu_pinned todo_data\<rparr> else u3)
      in u4)"

definition update_todo :: "db \<Rightarrow> string \<Rightarrow> TodoUpdate \<Rightarrow> string \<Rightarrow> (error + Todo option) \<times> db" where
  "update_todo d todo_id todo_data user_id =
     (case todo_find_unique d todo_id of
        None \<Rightarrow> (Inl (HTTPException 404 ''Todo not found'' []), d)
      | Some todo \<Rightarrow>
          if userId todo \<noteq> user_id
          then (Inl (HTTPException 403 ''Not authorized to update this todo'' []), d)
          else (case todo_update d todo_id (prepare_update_data todo_data) of
                  (updated_todo, d') \<Rightarrow> (Inr updated_todo, d')))"

definition delete_todo :: "db \<Rightarrow> string \<Rightarrow> string \<Rightarrow> (error + unit) \<times> db" where
  "delete_todo d todo_id user_id =
     (case todo_find_unique d todo_id of
        None \<Rightarrow> (Inl (HTTPException 404 ''Todo not found'' []), d)
      | Some todo \<Rightarrow>
          if userId todo \<noteq> user_id
          then (Inl (HTTPException 403 ''Not authorized to delete this todo'' []), d)
          else (case todo_delete d todo_id of (_, d') \<Rightarrow> (Inr (), d')))"

section \<open>Sample data\<close>

text \<open>
  A small concrete world on which the theorems below are instantiated: a toy token table
  in place of the signing library, a toy hasher, two users and three todos.
\<close>

definition sample_payload_access :: Payload where
  "sample_payload_access = \<lparr>p_sub = Some ''u1'', p_type = ''access'', p_exp = 2000\<rparr>"

definition sample_payload_refresh :: Payload where
  "sample_payload_refresh = \<lparr>p_sub = Some ''u1'', p_type = ''refresh'', p_exp = 9000\<rparr>"

definition sample_payload_expired :: Payload where
  "sample_payload_expired = \<lparr>p_sub = Some ''u1'', p_type = ''access'', p_exp = 500\<rparr>"

definition sample_payload_no_subject :: Payload where
  "sample_payload_no_subject = \<lparr>p_sub = None, p_type = ''access'', p_exp = 2000\<rparr>"

definition sample_payload_gone :: Payload where
  "sample_payload_gone = \<lparr>p_sub = Some ''u9'', p_type = ''access'', p_exp = 2000\<rparr>"

definition sample_decode :: "string \<Rightarrow> Payload option" where
  "sample_decode tok =
     (if tok = ''tokA'' then Some sample_payload_access
      else if tok = ''tokR'' then Some sample_payload_refresh
      else if tok = ''tokE'' then Some sample_payload_expired
      else if tok = ''tokN'' then Some sample_payload_no_subject
      else if tok = ''tokG'' then Some sample_payload_gone
      else None)"

definition sample_encode :: "Payload \<Rightarrow> string" where
  "sample_encode p = (if p_type p = ''access'' then ''tokA'' else ''tokR'')"

definition sample_hash :: "string \<Rightarrow> string" where
  "sample_hash pw = ''h:'' @ pw"

definition sample_verify :: "string \<Rightarrow> string \<Rightarrow> bool" where
  "sample_verify pw h = (h = sample_hash pw)"

definition sample_accepts :: "string \<Rightarrow> bool" where
  "sample_accepts raw = (CHR ''@'' \<in> set raw)"

definition binary_key :: "string \<Rightarrow> string" where
  "binary_key em = em"

definition sample_env :: env where
  "sample_env = \<lparr>hash_password = sample_hash, verify_password = sample_verify,
     jwt_encode = sample_encode, jwt_decode = sample_decode, now = 1000, fresh_id = ''n1'',
     email_accepts = sample_accepts, email_unique_key = binary_key\<rparr>"


definition sample_settings :: Settings where
  "sample_settings = \<lparr>ACCESS_TOKEN_EXPIRE_MINUTES = 30, REFRESH_TOKEN_EXPIRE_DAYS = 7,
     COOKIE_SECURE = False, COOKIE_SAMESITE = ''lax''\<rparr>"

definition alice :: User where
  "alice = \<lparr>u_id = ''u1'', u_email = ''alice@example.com'', u_password = ''h:pw123'',
     u_createdAt = 10\<rparr>"

definition bob :: User where
  "bob = \<lparr>u_id = ''u2'', u_email = ''bob@example.com'', u_password = ''h:hunter2'',
     u_createdAt = 20\<rparr>"

definition todo_a1 :: Todo where
  "todo_a1 = \<lparr>t_id = ''t1'', title = ''write'', completed = False, dueDate = Some 500,
     pinned = False, userId = ''u1'', createdAt = 100\<rparr>"

definition todo_b1 :: Todo where
  "todo_b1 = \<lparr>t_id = ''t2'', title = ''read'', completed = True, dueDate = None,
     pinned = True, userId = ''u2'', createdAt = 200\<rparr>"

definition todo_a2 :: Todo where
  "todo_a2 = \<lparr>t_id = ''t3'', title = ''ship'', completed = False, dueDate = None,
     pinned = False, userId = ''u1'', createdAt = 300\<rparr>"

definition sample_db :: db where
  "sample_db = \<lparr>users = [alice, bob], todos = [todo_a1, todo_b1, todo_a2]\<rparr>"

definition request_refresh_with_access :: Request where
  "request_refresh_with_access = \<lparr>cookies = [(''refresh_token'', ''tokA'')], headers = []\<rparr>"

definition sample_update :: TodoUpdate where
  "sample_update = \<lparr>tu_title = Some ''rewrite'', tu_completed = None, tu_dueDate = None,
     tu_pinned = Some True\<rparr>"

definition sample_create :: TodoCreate where
  "sample_create = \<lparr>tc_title = ''plan'', tc_completed = False, tc_dueDate = None,
     tc_pinned = True\<rparr>"

definition request_no_credentials :: Request where
  "request_no_credentials = \<lparr>cookies = [], headers = []\<rparr>"

definition request_basic_scheme :: Request where
  "request_basic_scheme =
     \<lparr>cookies = [], headers = [(''authorization'', ''Basic YWxpY2U6cHc='')]\<rparr>"

definition request_malformed_header :: Request where
  "request_malformed_header = \<lparr>cookies = [], headers = [(''authorization'', ''Bearer'')]\<rparr>"

definition request_invalid_cookie :: Request where
  "request_invalid_cookie = \<lparr>cookies = [(''access_token'', ''tokX'')], headers = []\<rparr>"

definition request_no_subject :: Request where
  "request_no_subject = \<lparr>cookies = [(''access_token'', ''tokN'')], headers = []\<rparr>"

definition request_gone_user :: Request where
  "request_gone_user = \<lparr>cookies = [(''access_token'', ''tokG'')], headers = []\<rparr>"

definition request_valid :: Request where
  "request_valid = \<lparr>cookies = [(''access_token'', ''tokA'')], headers = []\<rparr>"

definition request_bearer_expired :: Request where
  "request_bearer_expired =
     \<lparr>cookies = [], headers = [(''authorization'', ''Bearer tokE'')]\<rparr>"

definition request_refresh :: Request where
  "request_refresh = \<lparr>cookies = [(''refresh_token'', ''tokR'')], headers = []\<rparr>"

definition sample_update_due :: TodoUpdate where
  "sample_update_due = \<lparr>tu_title = None, tu_completed = Some True, tu_dueDate = Some 900,
     tu_pinned = None\<rparr>"


section \<open>Properties\<close>

subsection \<open>Token types\<close>

lemma verify_token_type:
  "verify_token e t a = Some p \<Longrightarrow> p_type p = a"
  by (auto simp: verify_token_def split: option.splits if_splits)

lemma verify_token_other:
  "verify_token e t a = Some p \<Longrightarrow> a \<noteq> b \<Longrightarrow> verify_token e t b = None"
  by (auto simp: verify_token_def split: option.splits if_splits)

text \<open>
  Claim C1. A token that verifies as an access token is rejected where a refresh token is
  required, and the other way round: if \<open>t\<close> verifies with expected type \<open>access\<close> and
  is presented in the \<^verbatim>\<open>refresh_token\<close> cookie, \<^verbatim>\<open>POST /auth/refresh\<close> fails with
  status 401; if \<open>t\<close> verifies with expected type \<open>refresh\<close>, the authentication gate
  fails on it with status 401.
\<close>

theorem token_types_segregated:
  "(verify_token e t ''access'' = Some p \<and> dict_get (cookies request) ''refresh_token'' = Some t
      \<longrightarrow> refresh_token e st d request =
            Inl (HTTPException 401 ''Invalid or expired refresh token'' []))
   \<and> (verify_token e t ''refresh'' = Some p
      \<longrightarrow> get_current_user_id e d t =
            Inl (HTTPException 401 ''Could not validate credentials'' www_authenticate))"
proof (intro conjI impI)
  assume a: "verify_token e t ''access'' = Some p \<and> dict_get (cookies request) ''refresh_token'' = Some t"
  then have "verify_token e t ''refresh'' = None"
    using verify_token_other [of e t "''access''" p "''refresh''"] by simp
  with a show "refresh_token e st d request =
            Inl (HTTPException 401 ''Invalid or expired refresh token'' [])"
    by (simp add: refresh_token_def)
next
  assume "verify_token e t ''refresh'' = Some p"
  then have "verify_token e t ''access'' = None"
    using verify_token_other [of e t "''refresh''" p "''access''"] by simp
  then show "get_current_user_id e d t =
            Inl (HTTPException 401 ''Could not validate credentials'' www_authenticate)"
    by (simp add: get_current_user_id_def)
qed

lemma sample_access_verifies:
  "verify_token sample_env ''tokA'' ''access'' = Some sample_payload_access"
  by (simp add: verify_token_def sample_env_def sample_decode_def sample_payload_access_def)

lemma sample_refresh_verifies:
  "verify_token sample_env ''tokR'' ''refresh'' = Some sample_payload_refresh"
  by (simp add: verify_token_def sample_env_def sample_decode_def sample_payload_refresh_def)

theorem token_types_segregated_witness:
  "verify_token sample_env ''tokA'' ''access'' = Some sample_payload_access
   \<and> dict_get (cookies request_refresh_with_access) ''refresh_token'' = Some ''tokA''
   \<and> refresh_token sample_env sample_settings sample_db request_refresh_with_access =
       Inl (HTTPException 401 ''Invalid or expired refresh token'' [])
   \<and> verify_token sample_env ''tokR'' ''refresh'' = Some sample_payload_refresh
   \<and> get_current_user_id sample_env sample_db ''tokR'' =
       Inl (HTTPException 401 ''Could not validate credentials'' www_authenticate)"
proof -
  have c: "dict_get (cookies request_refresh_with_access) ''refresh_token'' = Some ''tokA''"
    by (simp add: request_refresh_with_access_def dict_get_def)
  show ?thesis
    using sample_access_verifies sample_refresh_verifies c
      token_types_segregated [of sample_env "''tokA''" sample_payload_access
        request_refresh_with_access sample_settings sample_db]
      token_types_segregated [of sample_env "''tokR''" sample_payload_refresh
        request_refresh_with_access sample_settings sample_db]
    by simp
qed

subsection \<open>Login\<close>

lemma find_None_image: "(find (\<lambda>u. f u = k) xs = None) = (k \<notin> f ` set xs)"
  by (auto simp: find_None_iff)

text \<open>
  Claim C2. The error of a login whose email belongs to no user is the same value, status
  code and message, as the error of a login whose user exists but whose password does not
  verify against the stored hash.
\<close>

theorem login_uniform_failure:
  "ul_email ud1 \<notin> u_email ` set (users d1)
   \<and> user_find_unique_email d2 (ul_email ud2) = Some u
   \<and> \<not> verify_password e (ul_password ud2) (u_password u)
   \<longrightarrow> login e st d1 ud1 = Inl (HTTPException 401 ''Incorrect email or password'' [])
     \<and> login e st d2 ud2 = Inl (HTTPException 401 ''Incorrect email or password'' [])
     \<and> login e st d1 ud1 = login e st d2 ud2"
proof
  assume a: "ul_email ud1 \<notin> u_email ` set (users d1)
   \<and> user_find_unique_email d2 (ul_email ud2) = Some u
   \<and> \<not> verify_password e (ul_password ud2) (u_password u)"
  then have n: "user_find_unique_email d1 (ul_email ud1) = None"
    by (simp add: user_find_unique_email_def find_None_image)
  have l1: "login e st d1 ud1 = Inl (HTTPException 401 ''Incorrect email or password'' [])"
    using n by (simp add: login_def)
  have l2: "login e st d2 ud2 = Inl (HTTPException 401 ''Incorrect email or password'' [])"
    using a by (simp add: login_def)
  show "login e st d1 ud1 = Inl (HTTPException 401 ''Incorrect email or password'' [])
     \<and> login e st d2 ud2 = Inl (HTTPException 401 ''Incorrect email or password'' [])
     \<and> login e st d1 ud1 = login e st d2 ud2"
    using l1 l2 by simp
qed

theorem login_uniform_failure_witness:
  "''carol@example.com'' \<notin> u_email ` set (users sample_db)
   \<and> user_find_unique_email sample_db ''alice@example.com'' = Some alice
   \<and> \<not> verify_password sample_env ''wrong'' (u_password alice)
   \<and> login sample_env sample_settings sample_db
        \<lparr>ul_email = ''carol@example.com'', ul_password = ''pw123''\<rparr> =
      Inl (HTTPException 401 ''Incorrect email or password'' [])
   \<and> login sample_env sample_settings sample_db
        \<lparr>ul_email = ''alice@example.com'', ul_password = ''wrong''\<rparr> =
      Inl (HTTPException 401 ''Incorrect email or password'' [])"
proof -
  have h1: "''carol@example.com'' \<notin> u_email ` set (users sample_db)"
    by (simp add: sample_db_def alice_def bob_def)
  have h2: "user_find_unique_email sample_db ''alice@example.com'' = Some alice"
    by (simp add: user_find_unique_email_def sample_db_def alice_def bob_def)
  have h3: "\<not> verify_password sample_env ''wrong'' (u_password alice)"
    by (simp add: sample_env_def sample_verify_def sample_hash_def alice_def)
  show ?thesis
    using h1 h2 h3
      login_uniform_failure [of "\<lparr>ul_email = ''carol@example.com'', ul_password = ''pw123''\<rparr>"
        sample_db sample_db "\<lparr>ul_email = ''alice@example.com'', ul_password = ''wrong''\<rparr>"
        alice sample_env sample_settings]
    by simp
qed

subsection \<open>Ownership guard on update and delete\<close>

text \<open>
  Claim C3. For an update or a delete by id, called with the authenticated subject
  \<open>user_id\<close>: when no todo has that id the outcome is the 404 error
  \<^verbatim>\<open>Todo not found\<close>; when the todo found has another \<open>userId\<close> the outcome is a
  403 error. The lookup comes first, so the two cases give different errors, and in both the
  database returned is the database given: nothing is updated or deleted.
\<close>

theorem update_delete_existence_before_ownership:
  "(todo_id \<notin> t_id ` set (todos d)
      \<longrightarrow> update_todo d todo_id todo_data user_id =
            (Inl (HTTPException 404 ''Todo not found'' []), d)
        \<and> delete_todo d todo_id user_id =
            (Inl (HTTPException 404 ''Todo not found'' []), d))
   \<and> (todo_find_unique d todo_id = Some todo \<and> userId todo \<noteq> user_id
      \<longrightarrow> update_todo d todo_id todo_data user_id =
            (Inl (HTTPException 403 ''Not authorized to update this todo'' []), d)
        \<and> delete_todo d todo_id user_id =
            (Inl (HTTPException 403 ''Not authorized to delete this todo'' []), d))"
proof (rule conjI; rule impI)
  assume "todo_id \<notin> t_id ` set (todos d)"
  then have n: "todo_find_unique d todo_id = None"
    by (simp add: todo_find_unique_def find_None_image)
  show "update_todo d todo_id todo_data user_id =
            (Inl (HTTPException 404 ''Todo not found'' []), d)
        \<and> delete_todo d todo_id user_id =
            (Inl (HTTPException 404 ''Todo not found'' []), d)"
    using n by (simp add: update_todo_def delete_todo_def)
next
  assume "todo_find_unique d todo_id = Some todo \<and> userId todo \<noteq> user_id"
  then show "update_todo d todo_id todo_data user_id =
            (Inl (HTTPException 403 ''Not authorized to update this todo'' []), d)
        \<and> delete_todo d todo_id user_id =
            (Inl (HTTPException 403 ''Not authorized to delete this todo'' []), d)"
    by (simp add: update_todo_def delete_todo_def)
qed

lemma sample_find_t2: "todo_find_unique sample_db ''t2'' = Some todo_b1"
  by (simp add: todo_find_unique_def sample_db_def todo_a1_def todo_b1_def todo_a2_def)

theorem update_delete_existence_before_ownership_witness:
  "''t9'' \<notin> t_id ` set (todos sample_db)
   \<and> update_todo sample_db ''t9'' sample_update ''u1'' =
        (Inl (HTTPException 404 ''Todo not found'' []), sample_db)
   \<and> delete_todo sample_db ''t9'' ''u1'' =
        (Inl (HTTPException 404 ''Todo not found'' []), sample_db)
   \<and> todo_find_unique sample_db ''t2'' = Some todo_b1 \<and> userId todo_b1 \<noteq> ''u1''
   \<and> update_todo sample_db ''t2'' sample_update ''u1'' =
        (Inl (HTTPException 403 ''Not authorized to update this todo'' []), sample_db)
   \<and> delete_todo sample_db ''t2'' ''u1'' =
        (Inl (HTTPException 403 ''Not authorized to delete this todo'' []), sample_db)"
proof -
  have h1: "''t9'' \<notin> t_id ` set (todos sample_db)"
    by (simp add: sample_db_def todo_a1_def todo_b1_def todo_a2_def)
  have h2: "userId todo_b1 \<noteq> ''u1''"
    by (simp add: todo_b1_def)
  show ?thesis
    using h1 h2 sample_find_t2
      update_delete_existence_before_ownership [where todo_id = "''t9''" and d = sample_db
        and todo_data = sample_update and user_id = "''u1''" and todo = todo_b1]
      update_delete_existence_before_ownership [where todo_id = "''t2''" and d = sample_db
        and todo_data = sample_update and user_id = "''u1''" and todo = todo_b1]
    by simp
qed

subsection \<open>Listing and creating todos\<close>

lemma py_sorted_reverse_mset: "mset (py_sorted k True xs) = mset xs"
  by (simp add: py_sorted_def)

lemma py_sorted_reverse_descending:
  "sorted_wrt (\<lambda>a b. k a \<ge> k b) (py_sorted k True xs)"
proof -
  have "sorted (map k (sort_key k (rev xs)))"
    by simp
  then have "sorted_wrt (\<lambda>a b. k a \<le> k b) (sort_key k (rev xs))"
    by (simp add: sorted_map)
  then show ?thesis
    by (simp add: py_sorted_def sorted_wrt_rev)
qed

text \<open>
  Claim C4. Listing the todos of the authenticated subject returns exactly the stored todos
  whose \<open>userId\<close> is the subject, each as often as it is stored and none of another user,
  ordered by \<open>createdAt\<close> descending.
\<close>

theorem get_todos_scoped_and_sorted:
  "mset (get_todos d user_id) = mset (filter (\<lambda>t. userId t = user_id) (todos d))
   \<and> set (get_todos d user_id) = {t \<in> set (todos d). userId t = user_id}
   \<and> sorted_wrt (\<lambda>a b. createdAt a \<ge> createdAt b) (get_todos d user_id)"
proof -
  have m: "mset (get_todos d user_id) = mset (filter (\<lambda>t. userId t = user_id) (todos d))"
    by (simp add: get_todos_def todo_find_many_def py_sorted_reverse_mset)
  have "set (get_todos d user_id) = set (filter (\<lambda>t. userId t = user_id) (todos d))"
    using m by (rule mset_eq_setD)
  then have s: "set (get_todos d user_id) = {t \<in> set (todos d). userId t = user_id}"
    by simp
  have o: "sorted_wrt (\<lambda>a b. createdAt a \<ge> createdAt b) (get_todos d user_id)"
    unfolding get_todos_def by (rule py_sorted_reverse_descending)
  show ?thesis using m s o by simp
qed

lemma get_todos_sample: "get_todos sample_db ''u1'' = [todo_a2, todo_a1]"
  by (simp add: get_todos_def todo_find_many_def py_sorted_def sample_db_def
      todo_a1_def todo_b1_def todo_a2_def)

theorem get_todos_scoped_and_sorted_witness:
  "get_todos sample_db ''u1'' = [todo_a2, todo_a1]
   \<and> set (get_todos sample_db ''u1'') = {t \<in> set (todos sample_db). userId t = ''u1''}
   \<and> sorted_wrt (\<lambda>a b. createdAt a \<ge> createdAt b) (get_todos sample_db ''u1'')"
  using get_todos_scoped_and_sorted [of sample_db "''u1''"] get_todos_sample
  by simp

text \<open>
  Claim C5. The todo that a create request stores has the authenticated subject as its
  \<open>userId\<close>, whatever the request body holds: \<open>TodoCreate\<close> has no owner field, and the
  handler writes \<open>user_id\<close>. The created todo is the one appended to the collection.
\<close>

theorem create_todo_owner_is_subject:
  "userId (fst (create_todo e d todo_data user_id)) = user_id
   \<and> todos (snd (create_todo e d todo_data user_id)) =
       todos d @ [fst (create_todo e d todo_data user_id)]
   \<and> users (snd (create_todo e d todo_data user_id)) = users d"
  by (simp add: create_todo_def todo_create_def Let_def)

theorem create_todo_owner_is_subject_witness:
  "userId (fst (create_todo sample_env sample_db sample_create ''u2'')) = ''u2''
   \<and> fst (create_todo sample_env sample_db sample_create ''u2'') =
       \<lparr>t_id = ''n1'', title = ''plan'', completed = False, dueDate = None, pinned = True,
        userId = ''u2'', createdAt = 1000\<rparr>"
proof -
  have "fst (create_todo sample_env sample_db sample_create ''u2'') =
       \<lparr>t_id = ''n1'', title = ''plan'', completed = False, dueDate = None, pinned = True,
        userId = ''u2'', createdAt = 1000\<rparr>"
    by (simp add: create_todo_def todo_create_def Let_def sample_env_def sample_create_def)
  then show ?thesis
    using create_todo_owner_is_subject [of sample_env sample_db sample_create "''u2''"]
    by simp
qed

subsection \<open>Failures of the authentication gate\<close>

lemma get_current_user_id_failure:
  "get_current_user_id e d token = Inl err \<Longrightarrow>
     err = HTTPException 401 ''Could not validate credentials'' www_authenticate"
  by (auto simp: get_current_user_id_def Let_def split: option.splits)

lemma get_token_failure:
  "get_token_from_cookie_or_header request = Inl err \<Longrightarrow>
     err = HTTPException 401 ''Could not validate credentials'' www_authenticate
     \<or> err = HTTPException 401 ''Invalid authentication scheme'' www_authenticate
     \<or> err = HTTPException 401 ''Invalid authorization header'' www_authenticate"
  by (auto simp: get_token_from_cookie_or_header_def Let_def
      split: option.splits if_splits list.splits sum.splits)

lemma py_lower_Authorization: "py_lower ''Authorization'' = ''authorization''"
  by code_simp

lemma py_lower_Basic: "py_lower ''Basic'' = ''basic''"
  by code_simp

lemma py_split_basic: "py_split ''Basic YWxpY2U6cHc='' = [''Basic'', ''YWxpY2U6cHc='']"
  by code_simp

lemma py_split_bearer_only: "py_split ''Bearer'' = [''Bearer'']"
  by code_simp

text \<open>
  Claim C6, as the code has it. Every failure of the authentication gate is a 401 error
  with the header \<^verbatim>\<open>WWW-Authenticate: Bearer\<close>, and its message is one of three.
  The gate fails with \<^verbatim>\<open>Could not validate credentials\<close> when neither the cookie
  nor the header gives a token, and, for the token it found, when the token does not verify
  as an access token (invalid or expired), when the verified payload carries no subject, and
  when the subject names no stored user. An \<^verbatim>\<open>Authorization\<close> header that does not
  split into exactly two pieces fails with \<^verbatim>\<open>Invalid authorization header\<close>, and one
  whose scheme is not \<^verbatim>\<open>bearer\<close> with \<^verbatim>\<open>Invalid authentication scheme\<close>. Only
  a token that verifies, carries a subject and names a stored user passes, and the gate
  then returns that subject.
\<close>

theorem gate_failures_401_three_messages:
  "(depends_current_user_id e d request = Inl err
      \<longrightarrow> err = HTTPException 401 ''Could not validate credentials'' www_authenticate
        \<or> err = HTTPException 401 ''Invalid authentication scheme'' www_authenticate
        \<or> err = HTTPException 401 ''Invalid authorization header'' www_authenticate)
   \<and> (get_current_user_id e d token = Inl err
      \<longrightarrow> err = HTTPException 401 ''Could not validate credentials'' www_authenticate)
   \<and> (py_not (dict_get (cookies request) ''access_token'')
        \<and> py_not (headers_get (headers request) ''Authorization'')
      \<longrightarrow> depends_current_user_id e d request =
            Inl (HTTPException 401 ''Could not validate credentials'' www_authenticate))
   \<and> (py_not (dict_get (cookies request) ''access_token'')
        \<and> headers_get (headers request) ''Authorization'' = Some a \<and> a \<noteq> []
        \<and> length (py_split a) \<noteq> 2
      \<longrightarrow> depends_current_user_id e d request =
            Inl (HTTPException 401 ''Invalid authorization header'' www_authenticate))
   \<and> (py_not (dict_get (cookies request) ''access_token'')
        \<and> headers_get (headers request) ''Authorization'' = Some a \<and> a \<noteq> []
        \<and> py_split a = [scheme, tok] \<and> py_lower scheme \<noteq> ''bearer''
      \<longrightarrow> depends_current_user_id e d request =
            Inl (HTTPException 401 ''Invalid authentication scheme'' www_authenticate))
   \<and> (get_token_from_cookie_or_header request = Inr token
        \<and> verify_token e token ''access'' = None
      \<longrightarrow> depends_current_user_id e d request =
            Inl (HTTPException 401 ''Could not validate credentials'' www_authenticate))
   \<and> (get_token_from_cookie_or_header request = Inr token
        \<and> verify_token e token ''access'' = Some payload \<and> p_sub payload = None
      \<longrightarrow> depends_current_user_id e d request =
            Inl (HTTPException 401 ''Could not validate credentials'' www_authenticate))
   \<and> (get_token_from_cookie_or_header request = Inr token
        \<and> verify_token e token ''access'' = Some payload \<and> p_sub payload = Some uid
        \<and> user_find_unique_id d uid = None
      \<longrightarrow> depends_current_user_id e d request =
            Inl (HTTPException 401 ''Could not validate credentials'' www_authenticate))
   \<and> (get_token_from_cookie_or_header request = Inr token
        \<and> verify_token e token ''access'' = Some payload \<and> p_sub payload = Some uid
        \<and> user_find_unique_id d uid = Some user
      \<longrightarrow> depends_current_user_id e d request = Inr uid)"
proof -
  have p1: "depends_current_user_id e d request = Inl err
      \<longrightarrow> err = HTTPException 401 ''Could not validate credentials'' www_authenticate
        \<or> err = HTTPException 401 ''Invalid authentication scheme'' www_authenticate
        \<or> err = HTTPException 401 ''Invalid authorization header'' www_authenticate"
  proof
    assume f: "depends_current_user_id e d request = Inl err"
    show "err = HTTPException 401 ''Could not validate credentials'' www_authenticate
        \<or> err = HTTPException 401 ''Invalid authentication scheme'' www_authenticate
        \<or> err = HTTPException 401 ''Invalid authorization header'' www_authenticate"
    proof (cases "get_token_from_cookie_or_header request")
      case (Inl x)
      with f have "x = err" by (simp add: depends_current_user_id_def)
      with Inl show ?thesis using get_token_failure [of request err] by simp
    next
      case (Inr tk)
      with f have "get_current_user_id e d tk = Inl err"
        by (simp add: depends_current_user_id_def)
      then show ?thesis using get_current_user_id_failure [of e d tk err] by simp
    qed
  qed
  have p2: "get_current_user_id e d token = Inl err
      \<longrightarrow> err = HTTPException 401 ''Could not validate credentials'' www_authenticate"
    using get_current_user_id_failure [of e d token err] by blast
  have p3: "py_not (dict_get (cookies request) ''access_token'')
        \<and> py_not (headers_get (headers request) ''Authorization'')
      \<longrightarrow> depends_current_user_id e d request =
            Inl (HTTPException 401 ''Could not validate credentials'' www_authenticate)"
    by (auto simp: depends_current_user_id_def get_token_from_cookie_or_header_def py_not_def
        Let_def split: option.splits)
  have p4: "py_not (dict_get (cookies request) ''access_token'')
        \<and> headers_get (headers request) ''Authorization'' = Some a \<and> a \<noteq> []
        \<and> length (py_split a) \<noteq> 2
      \<longrightarrow> depends_current_user_id e d request =
            Inl (HTTPException 401 ''Invalid authorization header'' www_authenticate)"
    by (auto simp: depends_current_user_id_def get_token_from_cookie_or_header_def py_not_def
        Let_def split: option.splits list.splits)
  have p5: "py_not (dict_get (cookies request) ''access_token'')
        \<and> headers_get (headers request) ''Authorization'' = Some a \<and> a \<noteq> []
        \<and> py_split a = [scheme, tok] \<and> py_lower scheme \<noteq> ''bearer''
      \<longrightarrow> depends_current_user_id e d request =
            Inl (HTTPException 401 ''Invalid authentication scheme'' www_authenticate)"
    by (auto simp: depends_current_user_id_def get_token_from_cookie_or_header_def py_not_def
        Let_def split: option.splits)
  have p6: "get_token_from_cookie_or_header request = Inr token
        \<and> verify_token e token ''access'' = None
      \<longrightarrow> depends_current_user_id e d request =
            Inl (HTTPException 401 ''Could not validate credentials'' www_authenticate)"
    by (simp add: depends_current_user_id_def get_current_user_id_def)
  have p7: "get_token_from_cookie_or_header request = Inr token
        \<and> verify_token e token ''access'' = Some payload \<and> p_sub payload = None
      \<longrightarrow> depends_current_user_id e d request =
            Inl (HTTPException 401 ''Could not validate credentials'' www_authenticate)"
    by (simp add: depends_current_user_id_def get_current_user_id_def)
  have p8: "get_token_from_cookie_or_header request = Inr token
        \<and> verify_token e token ''access'' = Some payload \<and> p_sub payload = Some uid
        \<and> user_find_unique_id d uid = None
      \<longrightarrow> depends_current_user_id e d request =
            Inl (HTTPException 401 ''Could not validate credentials'' www_authenticate)"
    by (simp add: depends_current_user_id_def get_current_user_id_def)
  have p9: "get_token_from_cookie_or_header request = Inr token
        \<and> verify_token e token ''access'' = Some payload \<and> p_sub payload = Some uid
        \<and> user_find_unique_id d uid = Some user
      \<longrightarrow> depends_current_user_id e d request = Inr uid"
    by (simp add: depends_current_user_id_def get_current_user_id_def)
  show ?thesis
    by (intro conjI) (rule p1, rule p2, rule p3, rule p4, rule p5, rule p6, rule p7, rule p8,
        rule p9)
qed

lemma gate_no_credentials:
  "depends_current_user_id sample_env sample_db request_no_credentials =
     Inl (HTTPException 401 ''Could not validate credentials'' www_authenticate)"
  by (simp add: depends_current_user_id_def get_token_from_cookie_or_header_def
      request_no_credentials_def dict_get_def headers_get_def py_not_def)

lemma gate_basic_scheme:
  "depends_current_user_id sample_env sample_db request_basic_scheme =
     Inl (HTTPException 401 ''Invalid authentication scheme'' www_authenticate)"
  by (simp add: depends_current_user_id_def get_token_from_cookie_or_header_def
      request_basic_scheme_def dict_get_def headers_get_def py_not_def
      py_lower_Authorization py_split_basic py_lower_Basic)

lemma gate_malformed_header:
  "depends_current_user_id sample_env sample_db request_malformed_header =
     Inl (HTTPException 401 ''Invalid authorization header'' www_authenticate)"
  by (simp add: depends_current_user_id_def get_token_from_cookie_or_header_def
      request_malformed_header_def dict_get_def headers_get_def py_not_def
      py_lower_Authorization py_split_bearer_only)

text \<open>
  The claim as stated fails: three requests that all fail at the gate, one with no
  credentials, one with a \<^verbatim>\<open>Basic\<close> scheme and one with a one-word header, receive
  three different messages.
\<close>

theorem gate_failures_not_uniform:
  "depends_current_user_id sample_env sample_db request_no_credentials =
     Inl (HTTPException 401 ''Could not validate credentials'' www_authenticate)
   \<and> depends_current_user_id sample_env sample_db request_basic_scheme =
     Inl (HTTPException 401 ''Invalid authentication scheme'' www_authenticate)
   \<and> depends_current_user_id sample_env sample_db request_malformed_header =
     Inl (HTTPException 401 ''Invalid authorization header'' www_authenticate)
   \<and> depends_current_user_id sample_env sample_db request_no_credentials \<noteq>
     depends_current_user_id sample_env sample_db request_basic_scheme
   \<and> depends_current_user_id sample_env sample_db request_basic_scheme \<noteq>
     depends_current_user_id sample_env sample_db request_malformed_header"
  by (simp add: gate_no_credentials gate_basic_scheme gate_malformed_header)

lemma gate_invalid_cookie:
  "get_token_from_cookie_or_header request_invalid_cookie = Inr ''tokX''
   \<and> get_current_user_id sample_env sample_db ''tokX'' =
       Inl (HTTPException 401 ''Could not validate credentials'' www_authenticate)
   \<and> depends_current_user_id sample_env sample_db request_invalid_cookie =
       Inl (HTTPException 401 ''Could not validate credentials'' www_authenticate)"
  by (simp add: depends_current_user_id_def get_token_from_cookie_or_header_def
      get_current_user_id_def verify_token_def request_invalid_cookie_def dict_get_def
      py_not_def sample_env_def sample_decode_def)

lemma py_split_bearer_tokE: "py_split ''Bearer tokE'' = [''Bearer'', ''tokE'']"
  by code_simp

lemma py_lower_Bearer: "py_lower ''Bearer'' = ''bearer''"
  by code_simp

lemma sample_tokens_found:
  "get_token_from_cookie_or_header request_invalid_cookie = Inr ''tokX''"
  "get_token_from_cookie_or_header request_bearer_expired = Inr ''tokE''"
  "get_token_from_cookie_or_header request_no_subject = Inr ''tokN''"
  "get_token_from_cookie_or_header request_gone_user = Inr ''tokG''"
  "get_token_from_cookie_or_header request_valid = Inr ''tokA''"
  by (simp_all add: get_token_from_cookie_or_header_def request_invalid_cookie_def
      request_bearer_expired_def request_no_subject_def request_gone_user_def
      request_valid_def dict_get_def headers_get_def py_not_def py_lower_Authorization
      py_split_bearer_tokE py_lower_Bearer)

lemma sample_tokens_verified:
  "verify_token sample_env ''tokX'' ''access'' = None"
  "verify_token sample_env ''tokE'' ''access'' = None"
  "verify_token sample_env ''tokN'' ''access'' = Some sample_payload_no_subject"
  "verify_token sample_env ''tokG'' ''access'' = Some sample_payload_gone"
  by (simp_all add: verify_token_def sample_env_def sample_decode_def
      sample_payload_expired_def sample_payload_no_subject_def sample_payload_gone_def)

lemma sample_subjects:
  "p_sub sample_payload_no_subject = None"
  "p_sub sample_payload_gone = Some ''u9''"
  "p_sub sample_payload_access = Some ''u1''"
  "user_find_unique_id sample_db ''u9'' = None"
  "user_find_unique_id sample_db ''u1'' = Some alice"
  by (simp_all add: sample_payload_no_subject_def sample_payload_gone_def
      sample_payload_access_def user_find_unique_id_def sample_db_def alice_def bob_def)

theorem gate_failures_401_three_messages_witness:
  "get_current_user_id sample_env sample_db ''tokX'' =
       Inl (HTTPException 401 ''Could not validate credentials'' www_authenticate)
   \<and> get_token_from_cookie_or_header request_invalid_cookie = Inr ''tokX''
   \<and> verify_token sample_env ''tokX'' ''access'' = None
   \<and> get_token_from_cookie_or_header request_bearer_expired = Inr ''tokE''
   \<and> verify_token sample_env ''tokE'' ''access'' = None
   \<and> depends_current_user_id sample_env sample_db request_bearer_expired =
       Inl (HTTPException 401 ''Could not validate credentials'' www_authenticate)
   \<and> get_token_from_cookie_or_header request_no_subject = Inr ''tokN''
   \<and> verify_token sample_env ''tokN'' ''access'' = Some sample_payload_no_subject
   \<and> p_sub sample_payload_no_subject = None
   \<and> depends_current_user_id sample_env sample_db request_no_subject =
       Inl (HTTPException 401 ''Could not validate credentials'' www_authenticate)
   \<and> get_token_from_cookie_or_header request_gone_user = Inr ''tokG''
   \<and> verify_token sample_env ''tokG'' ''access'' = Some sample_payload_gone
   \<and> p_sub sample_payload_gone = Some ''u9''
   \<and> user_find_unique_id sample_db ''u9'' = None
   \<and> depends_current_user_id sample_env sample_db request_gone_user =
       Inl (HTTPException 401 ''Could not validate credentials'' www_authenticate)
   \<and> get_token_from_cookie_or_header request_valid = Inr ''tokA''
   \<and> verify_token sample_env ''tokA'' ''access'' = Some sample_payload_access
   \<and> user_find_unique_id sample_db ''u1'' = Some alice
   \<and> depends_current_user_id sample_env sample_db request_valid = Inr ''u1''
   \<and> depends_current_user_id sample_env sample_db request_invalid_cookie =
       Inl (HTTPException 401 ''Could not validate credentials'' www_authenticate)
   \<and> py_not (dict_get (cookies request_no_credentials) ''access_token'')
   \<and> py_not (headers_get (headers request_no_credentials) ''Authorization'')
   \<and> depends_current_user_id sample_env sample_db request_no_credentials =
       Inl (HTTPException 401 ''Could not validate credentials'' www_authenticate)
   \<and> py_not (dict_get (cookies request_malformed_header) ''access_token'')
   \<and> headers_get (headers request_malformed_header) ''Authorization'' = Some ''Bearer''
   \<and> length (py_split ''Bearer'') \<noteq> 2
   \<and> depends_current_user_id sample_env sample_db request_malformed_header =
       Inl (HTTPException 401 ''Invalid authorization header'' www_authenticate)
   \<and> py_not (dict_get (cookies request_basic_scheme) ''access_token'')
   \<and> headers_get (headers request_basic_scheme) ''Authorization'' = Some ''Basic YWxpY2U6cHc=''
   \<and> py_split ''Basic YWxpY2U6cHc='' = [''Basic'', ''YWxpY2U6cHc='']
   \<and> py_lower ''Basic'' \<noteq> ''bearer''
   \<and> depends_current_user_id sample_env sample_db request_basic_scheme =
       Inl (HTTPException 401 ''Invalid authentication scheme'' www_authenticate)"
proof -
  have n: "py_not (dict_get (cookies request_no_credentials) ''access_token'')
     \<and> py_not (headers_get (headers request_no_credentials) ''Authorization'')"
    by (simp add: request_no_credentials_def dict_get_def headers_get_def py_not_def)
  have m: "py_not (dict_get (cookies request_malformed_header) ''access_token'')
     \<and> headers_get (headers request_malformed_header) ''Authorization'' = Some ''Bearer''
     \<and> length (py_split ''Bearer'') \<noteq> 2"
    by (simp add: request_malformed_header_def dict_get_def headers_get_def py_not_def
        py_lower_Authorization py_split_bearer_only)
  have b: "py_not (dict_get (cookies request_basic_scheme) ''access_token'')
     \<and> headers_get (headers request_basic_scheme) ''Authorization'' = Some ''Basic YWxpY2U6cHc=''
     \<and> py_split ''Basic YWxpY2U6cHc='' = [''Basic'', ''YWxpY2U6cHc='']
     \<and> py_lower ''Basic'' \<noteq> ''bearer''"
    by (simp add: request_basic_scheme_def dict_get_def headers_get_def py_not_def
        py_lower_Authorization py_split_basic py_lower_Basic)
  have x: "get_current_user_id sample_env sample_db ''tokX'' =
       Inl (HTTPException 401 ''Could not validate credentials'' www_authenticate)
     \<and> depends_current_user_id sample_env sample_db request_invalid_cookie =
       Inl (HTTPException 401 ''Could not validate credentials'' www_authenticate)"
    using gate_invalid_cookie
      gate_failures_401_three_messages [where e = sample_env and d = sample_db
        and request = request_invalid_cookie and token = "''tokX''"
        and err = "HTTPException 401 ''Could not validate credentials'' www_authenticate"]
    by simp
  have c3: "depends_current_user_id sample_env sample_db request_no_credentials =
       Inl (HTTPException 401 ''Could not validate credentials'' www_authenticate)"
    using n gate_failures_401_three_messages [where e = sample_env and d = sample_db
        and request = request_no_credentials]
    by simp
  have c4: "depends_current_user_id sample_env sample_db request_malformed_header =
       Inl (HTTPException 401 ''Invalid authorization header'' www_authenticate)"
    using m gate_failures_401_three_messages [where e = sample_env and d = sample_db
        and request = request_malformed_header and a = "''Bearer''"]
    by simp
  have c5: "depends_current_user_id sample_env sample_db request_basic_scheme =
       Inl (HTTPException 401 ''Invalid authentication scheme'' www_authenticate)"
    using b gate_failures_401_three_messages [where e = sample_env and d = sample_db
        and request = request_basic_scheme and a = "''Basic YWxpY2U6cHc=''"
        and scheme = "''Basic''" and tok = "''YWxpY2U6cHc=''"]
    by simp
  have c6: "depends_current_user_id sample_env sample_db request_bearer_expired =
       Inl (HTTPException 401 ''Could not validate credentials'' www_authenticate)"
    using sample_tokens_found sample_tokens_verified
      gate_failures_401_three_messages [where e = sample_env and d = sample_db
        and request = request_bearer_expired and token = "''tokE''"]
    by simp
  have c7: "depends_current_user_id sample_env sample_db request_no_subject =
       Inl (HTTPException 401 ''Could not validate credentials'' www_authenticate)"
    using sample_tokens_found sample_tokens_verified sample_subjects
      gate_failures_401_three_messages [where e = sample_env and d = sample_db
        and request = request_no_subject and token = "''tokN''"
        and payload = sample_payload_no_subject]
    by simp
  have c8: "depends_current_user_id sample_env sample_db request_gone_user =
       Inl (HTTPException 401 ''Could not validate credentials'' www_authenticate)"
    using sample_tokens_found sample_tokens_verified sample_subjects
      gate_failures_401_three_messages [where e = sample_env and d = sample_db
        and request = request_gone_user and token = "''tokG''"
        and payload = sample_payload_gone and uid = "''u9''"]
    by simp
  have c9: "depends_current_user_id sample_env sample_db request_valid = Inr ''u1''"
    using sample_tokens_found sample_access_verifies sample_subjects
      gate_failures_401_three_messages [where e = sample_env and d = sample_db
        and request = request_valid and token = "''tokA''"
        and payload = sample_payload_access and uid = "''u1''" and user = alice]
    by simp
  show ?thesis
    using n m b x c3 c4 c5 c6 c7 c8 c9 sample_tokens_found sample_tokens_verified
      sample_subjects sample_access_verifies
    by simp
qed

subsection \<open>Refresh\<close>

text \<open>
  Claim C7. A successful refresh sets exactly one cookie, the \<^verbatim>\<open>access_token\<close> cookie
  holding the one newly issued access token; it sets no \<^verbatim>\<open>refresh_token\<close> cookie, and
  the refresh token of the response body is the string that was presented in the request's
  \<^verbatim>\<open>refresh_token\<close> cookie.
\<close>

theorem refresh_never_rotates:
  "refresh_token e st d request = Inr (cs, body)
   \<longrightarrow> dict_get (cookies request) ''refresh_token'' = Some (tr_refresh_token body)
     \<and> cs = [access_cookie st (tr_access_token body)]
     \<and> map key cs = [''access_token'']
     \<and> (\<exists>user. user_find_unique_id d (u_id user) = Some user
           \<and> tr_access_token body = create_access_token e st (u_id user))"
proof
  assume r: "refresh_token e st d request = Inr (cs, body)"
  then obtain rt where c: "dict_get (cookies request) ''refresh_token'' = Some rt"
    by (cases "dict_get (cookies request) ''refresh_token''") (simp_all add: refresh_token_def)
  from r c obtain payload where v: "verify_token e rt ''refresh'' = Some payload"
    by (cases "verify_token e rt ''refresh''") (simp_all add: refresh_token_def)
  from r c v obtain uid where s: "p_sub payload = Some uid"
    by (cases "p_sub payload") (simp_all add: refresh_token_def)
  from r c v s obtain user where u: "user_find_unique_id d uid = Some user"
    by (cases "user_find_unique_id d uid") (simp_all add: refresh_token_def)
  from u have i: "u_id user = uid"
    by (auto simp: user_find_unique_id_def find_Some_iff)
  from r c v s u have b: "body = \<lparr>tr_access_token = create_access_token e st (u_id user),
        tr_refresh_token = rt, tr_token_type = ''bearer''\<rparr>"
    and k: "cs = [access_cookie st (create_access_token e st (u_id user))]"
    by (simp_all add: refresh_token_def Let_def)
  have "user_find_unique_id d (u_id user) = Some user
           \<and> tr_access_token body = create_access_token e st (u_id user)"
    using u i b by simp
  then have ex: "\<exists>user. user_find_unique_id d (u_id user) = Some user
           \<and> tr_access_token body = create_access_token e st (u_id user)"
    by blast
  show "dict_get (cookies request) ''refresh_token'' = Some (tr_refresh_token body)
     \<and> cs = [access_cookie st (tr_access_token body)]
     \<and> map key cs = [''access_token'']
     \<and> (\<exists>user. user_find_unique_id d (u_id user) = Some user
           \<and> tr_access_token body = create_access_token e st (u_id user))"
    using c b k ex by (simp add: access_cookie_def)
qed

lemma refresh_sample:
  "refresh_token sample_env sample_settings sample_db request_refresh =
     Inr ([access_cookie sample_settings ''tokA''],
          \<lparr>tr_access_token = ''tokA'', tr_refresh_token = ''tokR'', tr_token_type = ''bearer''\<rparr>)"
proof -
  have t: "create_access_token sample_env sample_settings ''u1'' = ''tokA''"
    by (simp add: create_access_token_def sample_env_def sample_encode_def)
  show ?thesis
    by (simp add: refresh_token_def request_refresh_def dict_get_def sample_refresh_verifies
        sample_payload_refresh_def user_find_unique_id_def sample_db_def alice_def bob_def t
        Let_def)
qed

theorem refresh_never_rotates_witness:
  "refresh_token sample_env sample_settings sample_db request_refresh =
     Inr ([access_cookie sample_settings ''tokA''],
          \<lparr>tr_access_token = ''tokA'', tr_refresh_token = ''tokR'', tr_token_type = ''bearer''\<rparr>)
   \<and> dict_get (cookies request_refresh) ''refresh_token'' = Some ''tokR''
   \<and> map key [access_cookie sample_settings ''tokA''] = [''access_token'']"
  using refresh_sample
    refresh_never_rotates [where e = sample_env and st = sample_settings and d = sample_db
      and request = request_refresh and cs = "[access_cookie sample_settings ''tokA'']"
      and body = "\<lparr>tr_access_token = ''tokA'', tr_refresh_token = ''tokR'',
                     tr_token_type = ''bearer''\<rparr>"]
  by simp

subsection \<open>Updating a todo\<close>

lemma prepare_update_data_fields:
  "ud_title (prepare_update_data td) = tu_title td"
  "ud_completed (prepare_update_data td) = tu_completed td"
  "ud_dueDate (prepare_update_data td) = tu_dueDate td"
  "ud_pinned (prepare_update_data td) = tu_pinned td"
  by (simp_all add: prepare_update_data_def Let_def)

lemma apply_update_frame:
  "t_id (apply_update u t) = t_id t"
  "userId (apply_update u t) = userId t"
  "createdAt (apply_update u t) = createdAt t"
  by (simp_all add: apply_update_def)

lemma apply_update_unsupplied:
  "ud_title u = None \<Longrightarrow> title (apply_update u t) = title t"
  "ud_completed u = None \<Longrightarrow> completed (apply_update u t) = completed t"
  "ud_dueDate u = None \<Longrightarrow> dueDate (apply_update u t) = dueDate t"
  "ud_pinned u = None \<Longrightarrow> pinned (apply_update u t) = pinned t"
  by (simp_all add: apply_update_def)

lemma find_after_update:
  "find (\<lambda>x. t_id x = i) xs = Some t \<Longrightarrow>
     find (\<lambda>x. t_id x = i) (map (\<lambda>x. if t_id x = i then apply_update u x else x) xs) =
       Some (apply_update u t)"
  by (induction xs) (auto simp: apply_update_frame)

lemma update_todo_owner:
  "todo_find_unique d todo_id = Some todo \<Longrightarrow> userId todo = user_id \<Longrightarrow>
     update_todo d todo_id todo_data user_id =
       (Inr (Some (apply_update (prepare_update_data todo_data) todo)),
        d\<lparr>todos := map (\<lambda>x. if t_id x = todo_id
                               then apply_update (prepare_update_data todo_data) x else x)
                        (todos d)\<rparr>)"
  by (simp add: update_todo_def todo_update_def)

text \<open>
  Claim C8. When the owner updates a todo, the update succeeds, the todo returned is the one
  stored afterwards under that id, every field the request leaves out (\<open>None\<close> in
  \<open>TodoUpdate\<close>) has its previous stored value, and \<open>id\<close>, \<open>userId\<close> and
  \<open>createdAt\<close> are unchanged.
\<close>

theorem update_keeps_unsupplied_fields:
  "todo_find_unique d todo_id = Some todo \<and> userId todo = user_id
   \<longrightarrow> (\<exists>updated d'.
          update_todo d todo_id todo_data user_id = (Inr (Some updated), d')
          \<and> todo_find_unique d' todo_id = Some updated
          \<and> (tu_title todo_data = None \<longrightarrow> title updated = title todo)
          \<and> (tu_completed todo_data = None \<longrightarrow> completed updated = completed todo)
          \<and> (tu_dueDate todo_data = None \<longrightarrow> dueDate updated = dueDate todo)
          \<and> (tu_pinned todo_data = None \<longrightarrow> pinned updated = pinned todo)
          \<and> t_id updated = t_id todo
          \<and> userId updated = userId todo
          \<and> createdAt updated = createdAt todo)"
proof
  assume a: "todo_find_unique d todo_id = Some todo \<and> userId todo = user_id"
  let ?u = "prepare_update_data todo_data"
  let ?d' = "d\<lparr>todos := map (\<lambda>x. if t_id x = todo_id then apply_update ?u x else x) (todos d)\<rparr>"
  have r: "update_todo d todo_id todo_data user_id = (Inr (Some (apply_update ?u todo)), ?d')"
    using a update_todo_owner [of d todo_id todo user_id todo_data] by simp
  have s: "todo_find_unique ?d' todo_id = Some (apply_update ?u todo)"
    using a find_after_update [of todo_id "todos d" todo ?u]
    by (simp add: todo_find_unique_def)
  have f: "(tu_title todo_data = None \<longrightarrow> title (apply_update ?u todo) = title todo)
          \<and> (tu_completed todo_data = None \<longrightarrow> completed (apply_update ?u todo) = completed todo)
          \<and> (tu_dueDate todo_data = None \<longrightarrow> dueDate (apply_update ?u todo) = dueDate todo)
          \<and> (tu_pinned todo_data = None \<longrightarrow> pinned (apply_update ?u todo) = pinned todo)"
    by (simp add: apply_update_unsupplied prepare_update_data_fields)
  show "\<exists>updated d'.
          update_todo d todo_id todo_data user_id = (Inr (Some updated), d')
          \<and> todo_find_unique d' todo_id = Some updated
          \<and> (tu_title todo_data = None \<longrightarrow> title updated = title todo)
          \<and> (tu_completed todo_data = None \<longrightarrow> completed updated = completed todo)
          \<and> (tu_dueDate todo_data = None \<longrightarrow> dueDate updated = dueDate todo)
          \<and> (tu_pinned todo_data = None \<longrightarrow> pinned updated = pinned todo)
          \<and> t_id updated = t_id todo
          \<and> userId updated = userId todo
          \<and> createdAt updated = createdAt todo"
  proof (intro exI conjI)
    show "update_todo d todo_id todo_data user_id = (Inr (Some (apply_update ?u todo)), ?d')"
      by (rule r)
    show "todo_find_unique ?d' todo_id = Some (apply_update ?u todo)"
      by (rule s)
    show "tu_title todo_data = None \<longrightarrow> title (apply_update ?u todo) = title todo"
      using f by simp
    show "tu_completed todo_data = None \<longrightarrow> completed (apply_update ?u todo) = completed todo"
      using f by simp
    show "tu_dueDate todo_data = None \<longrightarrow> dueDate (apply_update ?u todo) = dueDate todo"
      using f by simp
    show "tu_pinned todo_data = None \<longrightarrow> pinned (apply_update ?u todo) = pinned todo"
      using f by simp
    show "t_id (apply_update ?u todo) = t_id todo"
      by (simp add: apply_update_frame)
    show "userId (apply_update ?u todo) = userId todo"
      by (simp add: apply_update_frame)
    show "createdAt (apply_update ?u todo) = createdAt todo"
      by (simp add: apply_update_frame)
  qed
qed

lemma sample_find_t1: "todo_find_unique sample_db ''t1'' = Some todo_a1"
  by (simp add: todo_find_unique_def sample_db_def todo_a1_def)

theorem update_keeps_unsupplied_fields_witness:
  "todo_find_unique sample_db ''t1'' = Some todo_a1 \<and> userId todo_a1 = ''u1''
   \<and> tu_completed sample_update = None \<and> tu_dueDate sample_update = None
   \<and> (\<exists>updated d'.
         update_todo sample_db ''t1'' sample_update ''u1'' = (Inr (Some updated), d')
         \<and> todo_find_unique d' ''t1'' = Some updated
         \<and> completed updated = completed todo_a1
         \<and> dueDate updated = Some 500
         \<and> t_id updated = ''t1'' \<and> userId updated = ''u1'' \<and> createdAt updated = 100)"
proof -
  have h: "todo_find_unique sample_db ''t1'' = Some todo_a1 \<and> userId todo_a1 = ''u1''"
    using sample_find_t1 by (simp add: todo_a1_def)
  have n: "tu_completed sample_update = None \<and> tu_dueDate sample_update = None"
    by (simp add: sample_update_def)
  have v: "dueDate todo_a1 = Some 500 \<and> t_id todo_a1 = ''t1'' \<and> createdAt todo_a1 = 100"
    by (simp add: todo_a1_def)
  obtain updated d' where
    u: "update_todo sample_db ''t1'' sample_update ''u1'' = (Inr (Some updated), d')
         \<and> todo_find_unique d' ''t1'' = Some updated
         \<and> completed updated = completed todo_a1
         \<and> dueDate updated = dueDate todo_a1
         \<and> t_id updated = t_id todo_a1 \<and> userId updated = userId todo_a1
         \<and> createdAt updated = createdAt todo_a1"
    using h n update_keeps_unsupplied_fields [where d = sample_db and todo_id = "''t1''"
        and todo = todo_a1 and user_id = "''u1''" and todo_data = sample_update]
    by auto
  have "update_todo sample_db ''t1'' sample_update ''u1'' = (Inr (Some updated), d')
         \<and> todo_find_unique d' ''t1'' = Some updated
         \<and> completed updated = completed todo_a1
         \<and> dueDate updated = Some 500
         \<and> t_id updated = ''t1'' \<and> userId updated = ''u1'' \<and> createdAt updated = 100"
    using u h v by simp
  then have "\<exists>updated d'.
         update_todo sample_db ''t1'' sample_update ''u1'' = (Inr (Some updated), d')
         \<and> todo_find_unique d' ''t1'' = Some updated
         \<and> completed updated = completed todo_a1
         \<and> dueDate updated = Some 500
         \<and> t_id updated = ''t1'' \<and> userId updated = ''u1'' \<and> createdAt updated = 100"
    by blast
  then show ?thesis using h n by simp
qed

lemma update_todo_todos:
  "todos (snd (update_todo d todo_id todo_data user_id)) = todos d
   \<or> todos (snd (update_todo d todo_id todo_data user_id)) =
       map (\<lambda>x. if t_id x = todo_id
                 then apply_update (prepare_update_data todo_data) x else x) (todos d)"
  by (simp add: update_todo_def todo_update_def split: option.splits)

lemma dueDate_kept_refl: "list_all2 (\<lambda>old new. dueDate old \<noteq> None \<longrightarrow> dueDate new \<noteq> None) xs xs"
  by (simp add: list_all2_same)

lemma dueDate_kept_map:
  "list_all2 (\<lambda>old new. dueDate old \<noteq> None \<longrightarrow> dueDate new \<noteq> None) xs
     (map (\<lambda>x. if t_id x = i then apply_update u x else x) xs)"
  by (auto simp: list_all2_map2 list_all2_same apply_update_def split: option.splits)

lemma dueDate_unchanged_map:
  "ud_dueDate u = None \<Longrightarrow>
     map dueDate (map (\<lambda>x. if t_id x = i then apply_update u x else x) xs) = map dueDate xs"
  by (induction xs) (simp_all add: apply_update_unsupplied)

text \<open>
  Claim C10. No update clears a due date. An omitted \<open>dueDate\<close> and an explicit null are
  the same request value (\<open>None\<close> in \<open>TodoUpdate\<close>); for it the stored due dates after the
  call are the stored due dates before it. For every request, whatever it holds and however
  the call ends, each stored todo that had a due date still has one.
\<close>

theorem update_never_clears_due_date:
  "(tu_dueDate todo_data = None
      \<longrightarrow> map dueDate (todos (snd (update_todo d todo_id todo_data user_id))) =
            map dueDate (todos d))
   \<and> list_all2 (\<lambda>old new. dueDate old \<noteq> None \<longrightarrow> dueDate new \<noteq> None)
        (todos d) (todos (snd (update_todo d todo_id todo_data user_id)))"
proof (rule conjI)
  show "tu_dueDate todo_data = None
      \<longrightarrow> map dueDate (todos (snd (update_todo d todo_id todo_data user_id))) =
            map dueDate (todos d)"
  proof
    assume "tu_dueDate todo_data = None"
    then have "ud_dueDate (prepare_update_data todo_data) = None"
      by (simp add: prepare_update_data_fields)
    then show "map dueDate (todos (snd (update_todo d todo_id todo_data user_id))) =
            map dueDate (todos d)"
      using update_todo_todos [of d todo_id todo_data user_id]
        dueDate_unchanged_map [of "prepare_update_data todo_data" todo_id "todos d"]
      by auto
  qed
  show "list_all2 (\<lambda>old new. dueDate old \<noteq> None \<longrightarrow> dueDate new \<noteq> None)
        (todos d) (todos (snd (update_todo d todo_id todo_data user_id)))"
    using update_todo_todos [of d todo_id todo_data user_id]
      dueDate_kept_refl [of "todos d"]
      dueDate_kept_map [of "todos d" todo_id "prepare_update_data todo_data"]
    by auto
qed

lemma update_sample_new_due:
  "map dueDate (todos (snd (update_todo sample_db ''t1'' sample_update_due ''u1''))) =
     [Some 900, None, None]"
proof -
  have "userId todo_a1 = ''u1''"
    by (simp add: todo_a1_def)
  then have "todos (snd (update_todo sample_db ''t1'' sample_update_due ''u1'')) =
      map (\<lambda>x. if t_id x = ''t1''
                then apply_update (prepare_update_data sample_update_due) x else x)
          (todos sample_db)"
    using update_todo_owner [OF sample_find_t1, of "''u1''" sample_update_due] by simp
  then show ?thesis
    by (simp add: sample_db_def todo_a1_def todo_b1_def todo_a2_def apply_update_def
        prepare_update_data_fields sample_update_due_def)
qed

theorem update_never_clears_due_date_witness:
  "tu_dueDate sample_update = None
   \<and> map dueDate (todos sample_db) = [Some 500, None, None]
   \<and> map dueDate (todos (snd (update_todo sample_db ''t1'' sample_update ''u1''))) =
       [Some 500, None, None]
   \<and> map dueDate (todos (snd (update_todo sample_db ''t1'' sample_update_due ''u1''))) =
       [Some 900, None, None]
   \<and> list_all2 (\<lambda>old new. dueDate old \<noteq> None \<longrightarrow> dueDate new \<noteq> None)
        (todos sample_db) (todos (snd (update_todo sample_db ''t1'' sample_update_due ''u1'')))"
proof -
  have n: "tu_dueDate sample_update = None"
    by (simp add: sample_update_def)
  have b: "map dueDate (todos sample_db) = [Some 500, None, None]"
    by (simp add: sample_db_def todo_a1_def todo_b1_def todo_a2_def)
  show ?thesis
    using n b update_sample_new_due
      update_never_clears_due_date [of sample_update sample_db "''t1''" "''u1''"]
      update_never_clears_due_date [of sample_update_due sample_db "''t1''" "''u1''"]
    by simp
qed

subsection \<open>Registration\<close>










lemma normalize_upper_domain: "EmailStr_normalize ''alice@EXAMPLE.COM'' = ''alice@example.com''"
  by code_simp










end
